theory Spec2Isabelle
  imports Complex_Main
begin

section \<open>JavaScript values used by the converter\<close>

text \<open>
  The converter is written in JavaScript. Its exceptions are values of \<open>exn\<close>; a
  function that can throw returns \<open>exn + 'a\<close>, with \<open>Inl\<close> the exception thrown.
\<close>

datatype exn = Error string | TypeError string | RangeError string

definition bind_exn :: "exn + 'a \<Rightarrow> ('a \<Rightarrow> exn + 'b) \<Rightarrow> exn + 'b" where
  "bind_exn r f = (case r of Inl e \<Rightarrow> Inl e | Inr a \<Rightarrow> f a)"

text \<open>
  A JavaScript number is an IEEE double. The model keeps the three kinds of value the
  code can produce: a finite value, held as an exact rational (rounding of the double
  is not modelled, and zero has no sign), \<open>NaN\<close>, and the two infinities
  (\<open>Infinity True\<close> is \<open>+Infinity\<close>).
\<close>

datatype number = Fin rat | NaN | Infinity bool

fun num_sub :: "number \<Rightarrow> number \<Rightarrow> number" where
  "num_sub (Fin a) (Fin b) = Fin (a - b)"
| "num_sub NaN _ = NaN"
| "num_sub _ NaN = NaN"
| "num_sub (Infinity s) (Fin _) = Infinity s"
| "num_sub (Fin _) (Infinity s) = Infinity (\<not> s)"
| "num_sub (Infinity s) (Infinity t) = (if s = t then NaN else Infinity s)"

fun num_mul :: "number \<Rightarrow> number \<Rightarrow> number" where
  "num_mul (Fin a) (Fin b) = Fin (a * b)"
| "num_mul NaN _ = NaN"
| "num_mul _ NaN = NaN"
| "num_mul (Infinity s) (Fin b) = (if b = 0 then NaN else Infinity (s = (0 < b)))"
| "num_mul (Fin a) (Infinity s) = (if a = 0 then NaN else Infinity (s = (0 < a)))"
| "num_mul (Infinity s) (Infinity t) = Infinity (s = t)"

fun num_div :: "number \<Rightarrow> number \<Rightarrow> number" where
  "num_div (Fin a) (Fin b) =
     (if b = 0 then (if a = 0 then NaN else Infinity (0 < a)) else Fin (a / b))"
| "num_div NaN _ = NaN"
| "num_div _ NaN = NaN"
| "num_div (Infinity s) (Fin b) = Infinity (s = (0 \<le> b))"
| "num_div (Fin _) (Infinity _) = Fin 0"
| "num_div (Infinity _) (Infinity _) = NaN"

text \<open>\<open>x >= 0\<close>: every comparison with \<open>NaN\<close> is false.\<close>

fun num_ge0 :: "number \<Rightarrow> bool" where
  "num_ge0 (Fin a) = (0 \<le> a)"
| "num_ge0 NaN = False"
| "num_ge0 (Infinity s) = s"

text \<open>\<open>Math.abs\<close>.\<close>

fun num_abs :: "number \<Rightarrow> number" where
  "num_abs (Fin a) = Fin \<bar>a\<bar>"
| "num_abs NaN = NaN"
| "num_abs (Infinity _) = Infinity True"

definition of_size :: "nat \<Rightarrow> number" where
  "of_size n = Fin (of_nat n)"

section \<open>Strings\<close>

definition digit_char :: "nat \<Rightarrow> char" where
  "digit_char d =
     (if d = 0 then CHR ''0'' else if d = 1 then CHR ''1'' else if d = 2 then CHR ''2''
      else if d = 3 then CHR ''3'' else if d = 4 then CHR ''4'' else if d = 5 then CHR ''5''
      else if d = 6 then CHR ''6'' else if d = 7 then CHR ''7'' else if d = 8 then CHR ''8''
      else CHR ''9'')"

text \<open>The decimal digits of a natural number, as \<open>String(n)\<close> writes an integer.\<close>

function show_nat :: "nat \<Rightarrow> string" where
  "show_nat n = (if n < 10 then [digit_char n] else show_nat (n div 10) @ [digit_char (n mod 10)])"
  by pat_completeness auto
termination
  by (relation "measure id") auto

declare show_nat.simps [simp del]

definition pad_zeros :: "nat \<Rightarrow> string \<Rightarrow> string" where
  "pad_zeros d s = replicate (d - length s) (CHR ''0'') @ s"

text \<open>
  \<open>x.toFixed(digits)\<close>. It throws a RangeError when \<open>digits\<close> is outside 0..100.
  A finite \<open>x\<close> is written with exactly \<open>digits\<close> decimals: the integer \<open>n\<close> with
  \<open>n / 10^digits\<close> nearest to \<open>x\<close>, the larger one on a tie. (From \<open>10^21\<close> on
  JavaScript switches to exponent notation; sizes of files stay far below.)
\<close>

definition fixed_digits :: "rat \<Rightarrow> nat \<Rightarrow> string" where
  "fixed_digits x d =
     (let n = nat \<lfloor>x * 10 ^ d + 1 / 2\<rfloor>
      in show_nat (n div 10 ^ d) @
         (if d = 0 then [] else CHR ''.'' # pad_zeros d (show_nat (n mod 10 ^ d))))"

definition toFixed :: "number \<Rightarrow> int \<Rightarrow> exn + string" where
  "toFixed x digits =
     (if digits < 0 \<or> 100 < digits then Inl (RangeError ''toFixed() digits argument must be between 0 and 100'')
      else (case x of
              NaN \<Rightarrow> Inr ''NaN''
            | Infinity s \<Rightarrow> Inr (if s then ''Infinity'' else ''-Infinity'')
            | Fin r \<Rightarrow>
                Inr (if r < 0 then CHR ''-'' # fixed_digits (- r) (nat digits)
                     else fixed_digits r (nat digits))))"

text \<open>
  \<open>parseFloat(s) + ' '\<close> for a string \<open>s\<close> that \<open>toFixed\<close> wrote for a number that
  is not negative: the number read back is printed in its shortest form, which drops the
  trailing zeros of the fraction and a decimal point left at the end.
\<close>

definition parseFloat_show :: "string \<Rightarrow> string" where
  "parseFloat_show s =
     (if CHR ''.'' \<in> set s
      then (let t = rev (dropWhile (\<lambda>c. c = CHR ''0'') (rev s))
            in (case rev t of CHR ''.'' # u \<Rightarrow> rev u | _ \<Rightarrow> t))
      else s)"

text \<open>\<open>s.split(c)\<close> for a one-character separator.\<close>

fun split_js :: "char \<Rightarrow> string \<Rightarrow> string list" where
  "split_js c [] = [[]]"
| "split_js c (x # xs) =
     (if x = c then [] # split_js c xs
      else (case split_js c xs of w # ws \<Rightarrow> (x # w) # ws | [] \<Rightarrow> [[x]]))"

text \<open>\<open>s.toUpperCase()\<close> on the ASCII letters (a \<open>char\<close> is a byte).\<close>

definition upper_char :: "char \<Rightarrow> char" where
  "upper_char c =
     (case map_of (zip ''abcdefghijklmnopqrstuvwxyz'' ''ABCDEFGHIJKLMNOPQRSTUVWXYZ'') c of
        Some u \<Rightarrow> u | None \<Rightarrow> c)"

definition toUpperCase :: "string \<Rightarrow> string" where
  "toUpperCase s = map upper_char s"

text \<open>\<open>xs.join(sep)\<close>.\<close>

fun join :: "string \<Rightarrow> string list \<Rightarrow> string" where
  "join sep [] = []"
| "join sep [x] = x"
| "join sep (x # y # ys) = x @ sep @ join sep (y # ys)"

text \<open>\<open>s.lastIndexOf(c)\<close>: the index of the last occurrence, or -1.\<close>

fun last_index_from :: "char \<Rightarrow> string \<Rightarrow> int \<Rightarrow> int \<Rightarrow> int" where
  "last_index_from c [] i best = best"
| "last_index_from c (x # xs) i best = last_index_from c xs (i + 1) (if x = c then i else best)"

definition lastIndexOf :: "string \<Rightarrow> char \<Rightarrow> int" where
  "lastIndexOf s c = last_index_from c s 0 (- 1)"

text \<open>
  \<open>s.substring(a, b)\<close>: both indices are clamped to \<open>0..length\<close> and swapped when
  \<open>a > b\<close>; a negative index counts as 0.
\<close>

definition substring :: "string \<Rightarrow> int \<Rightarrow> int \<Rightarrow> string" where
  "substring s a b =
     (let n = int (length s);
          a' = min (max a 0) n;
          b' = min (max b 0) n;
          lo = min a' b';
          hi = max a' b'
      in take (nat (hi - lo)) (drop (nat lo) s))"

text \<open>\<open>xs.map(f)\<close> for an \<open>f\<close> that can throw: the first exception ends the map.\<close>

fun map_exn :: "('a \<Rightarrow> exn + 'b) \<Rightarrow> 'a list \<Rightarrow> exn + 'b list" where
  "map_exn f [] = Inr []"
| "map_exn f (x # xs) =
     bind_exn (f x) (\<lambda>y. bind_exn (map_exn f xs) (\<lambda>ys. Inr (y # ys)))"

section \<open>Utils: validation and formatting\<close>

record jsfile =
  fname :: string
  ftype :: string
  fsize :: nat

definition SUPPORTED_TYPES :: "string list" where
  "SUPPORTED_TYPES =
     [''image/png'', ''image/jpeg'', ''image/jpg'', ''image/gif'', ''image/bmp'',
      ''image/svg+xml'']"

definition MAX_FILE_SIZE :: nat where
  "MAX_FILE_SIZE = 10 * 1024 * 1024"

definition isValidFileType :: "jsfile \<Rightarrow> bool" where
  "isValidFileType f = (ftype f \<in> set SUPPORTED_TYPES)"

definition isValidFileSize :: "jsfile \<Rightarrow> bool" where
  "isValidFileSize f = (fsize f \<le> MAX_FILE_SIZE)"

text \<open>
  \<open>Math.floor(Math.log(bytes) / Math.log(k))\<close> for \<open>bytes \<ge> 1\<close>: the number of times
  \<open>bytes\<close> can be divided by \<open>k\<close> before it drops below \<open>k\<close> (the floor of the exact
  logarithm; the rounding of \<open>Math.log\<close> is not modelled).
\<close>

function floor_log :: "nat \<Rightarrow> nat \<Rightarrow> nat" where
  "floor_log k n = (if k < 2 \<or> n < k then 0 else Suc (floor_log k (n div k)))"
  by pat_completeness auto
termination
  by (relation "measure snd") auto

declare floor_log.simps [simp del]

text \<open>
  \<open>sizes[i]\<close> inside a string concatenation: an index outside the array reads
  \<open>undefined\<close>, which the concatenation writes as the word.
\<close>

definition index_text :: "string list \<Rightarrow> nat \<Rightarrow> string" where
  "index_text xs i = (if i < length xs then xs ! i else ''undefined'')"

definition sizes :: "string list" where
  "sizes = [''Bytes'', ''KB'', ''MB'', ''GB'']"

text \<open>
  \<open>formatFileSize(bytes, decimals)\<close>; a caller that leaves \<open>decimals\<close> out gets 2.
  \<open>bytes\<close> is the size of a file or of a blob, a natural number.
\<close>

definition formatFileSize :: "nat \<Rightarrow> int \<Rightarrow> exn + string" where
  "formatFileSize bytes decimals =
     (if bytes = 0 then Inr ''0 Bytes''
      else
        (let k = 1024;
             dm = (if decimals < 0 then 0 else decimals);
             i = floor_log k bytes
         in bind_exn (toFixed (num_div (of_size bytes) (of_size (k ^ i))) dm)
              (\<lambda>s. Inr (parseFloat_show s @ '' '' @ index_text sizes i))))"

definition calculateReduction :: "nat \<Rightarrow> nat \<Rightarrow> exn + string" where
  "calculateReduction originalSize newSize =
     (let reduction =
            num_mul (num_div (num_sub (of_size originalSize) (of_size newSize))
                       (of_size originalSize)) (Fin 100);
          sign = (if num_ge0 reduction then ''-'' else ''+'')
      in bind_exn (toFixed (num_abs reduction) 1) (\<lambda>s. Inr (sign @ s @ ''%'')))"

definition getFileExtension :: "string \<Rightarrow> string" where
  "getFileExtension filename = toUpperCase (last (split_js (CHR ''.'') filename))"

definition generateWebPFilename :: "string \<Rightarrow> string" where
  "generateWebPFilename originalFilename =
     (let nameWithoutExt = substring originalFilename 0 (lastIndexOf originalFilename (CHR ''.''))
      in nameWithoutExt @ ''.webp'')"

record validation =
  valid :: bool
  error :: "string option"

text \<open>
  \<open>type.split('/')[1].toUpperCase()\<close>: a type with no \<open>/\<close> has no element 1, and the
  call on \<open>undefined\<close> throws.
\<close>

definition subtype_upper :: "string \<Rightarrow> exn + string" where
  "subtype_upper t =
     (case split_js (CHR ''/'') t of
        _ # b # _ \<Rightarrow> Inr (toUpperCase b)
      | _ \<Rightarrow> Inl (TypeError ''Cannot read properties of undefined (reading 'toUpperCase')''))"

definition validateFile :: "jsfile option \<Rightarrow> exn + validation" where
  "validateFile fo =
     (case fo of
        None \<Rightarrow> Inr \<lparr>valid = False, error = Some ''No file selected''\<rparr>
      | Some f \<Rightarrow>
          if \<not> isValidFileType f then
            bind_exn (map_exn subtype_upper SUPPORTED_TYPES)
              (\<lambda>names.
                 let supportedFormats = join '', '' names
                 in Inr \<lparr>valid = False,
                         error = Some (''Unsupported file type: '' @ ftype f @
                                       ''. Supported formats: '' @ supportedFormats)\<rparr>)
          else if \<not> isValidFileSize f then
            bind_exn (formatFileSize MAX_FILE_SIZE 2)
              (\<lambda>limit.
                 bind_exn (formatFileSize (fsize f) 2)
                   (\<lambda>actual.
                      Inr \<lparr>valid = False,
                           error = Some (''File size exceeds '' @ limit @
                                         '' limit. Selected file: '' @ actual)\<rparr>))
          else Inr \<lparr>valid = True, error = None\<rparr>)"

section \<open>The platform: images, blobs and object URLs\<close>

text \<open>
  A URL string is either a \<open>data:\<close> URL, which carries its content, or a \<open>blob:\<close>
  URL that \<open>URL.createObjectURL\<close> issued; the latter is named by its serial number.
\<close>

datatype url = DataURL string | BlobURL nat

record image =
  src :: url
  naturalWidth :: nat
  naturalHeight :: nat

record blob =
  blob_size :: nat
  blob_type :: string

record state =
  originalFile :: "jsfile option"
  originalImage :: "image option"
  convertedBlob :: "blob option"
  quality :: number
  isConverting :: bool

text \<open>
  The world the engine runs in: its \<open>state\<close> object and the browser's table of live
  object URLs (the ones created and not yet revoked), with the serial number of the
  next URL.
\<close>

record world =
  state :: state
  objectURLs :: "(nat \<times> blob) list"
  nextURL :: nat

definition initial_state :: state where
  "initial_state =
     \<lparr>originalFile = None, originalImage = None, convertedBlob = None,
      quality = Fin (9 / 10), isConverting = False\<rparr>"

definition initial_world :: world where
  "initial_world = \<lparr>state = initial_state, objectURLs = [], nextURL = 0\<rparr>"

definition createObjectURL :: "world \<Rightarrow> blob \<Rightarrow> url \<times> world" where
  "createObjectURL w b =
     (BlobURL (nextURL w),
      w\<lparr>objectURLs := objectURLs w @ [(nextURL w, b)], nextURL := Suc (nextURL w)\<rparr>)"

text \<open>Revoking a URL that is not a live object URL does nothing.\<close>

definition revokeObjectURL :: "world \<Rightarrow> url \<Rightarrow> world" where
  "revokeObjectURL w u =
     (case u of
        BlobURL n \<Rightarrow> w\<lparr>objectURLs := filter (\<lambda>e. fst e \<noteq> n) (objectURLs w)\<rparr>
      | DataURL _ \<Rightarrow> w)"

definition live :: "world \<Rightarrow> url \<Rightarrow> bool" where
  "live w u = (case u of BlobURL n \<Rightarrow> n \<in> fst ` set (objectURLs w) | DataURL _ \<Rightarrow> False)"

text \<open>
  \<open>Utils.loadImage(file)\<close> suspends until the browser has read and decoded the file.
  What the browser answers is an input of the model.
\<close>

datatype load_outcome = ReaderError | ImageError | ImageLoaded image

definition loadImage :: "load_outcome \<Rightarrow> exn + image" where
  "loadImage out =
     (case out of
        ReaderError \<Rightarrow> Inl (Error ''Failed to read file'')
      | ImageError \<Rightarrow> Inl (Error ''Failed to load image'')
      | ImageLoaded img \<Rightarrow> Inr img)"

section \<open>ImageConverter\<close>

record image_data =
  d_file :: jsfile
  d_image :: image
  d_format :: string
  d_size :: nat
  d_width :: nat
  d_height :: nat
  d_dataUrl :: url

text \<open>
  \<open>loadImageFile(file)\<close>. The function reads and writes the state only after the
  image has loaded, so the call is one step, taken when the browser answers.
\<close>

definition loadImageFile :: "world \<Rightarrow> jsfile option \<Rightarrow> load_outcome \<Rightarrow> (exn + image_data) \<times> world" where
  "loadImageFile w fo out =
     (case validateFile fo of
        Inl e \<Rightarrow> (Inl e, w)
      | Inr validation \<Rightarrow>
          if \<not> valid validation then
            (Inl (Error (case error validation of Some m \<Rightarrow> m | None \<Rightarrow> ''null'')), w)
          else
            (case loadImage out of
               Inl e \<Rightarrow> (Inl e, w)
             | Inr img \<Rightarrow>
                 (let w' = w\<lparr>state := (state w)\<lparr>originalFile := fo, originalImage := Some img\<rparr>\<rparr>
                  in (case fo of
                        None \<Rightarrow> (Inl (TypeError ''Cannot read properties of null (reading 'name')''), w')
                      | Some f \<Rightarrow>
                          (Inr \<lparr>d_file = f, d_image = img,
                                d_format = getFileExtension (fname f),
                                d_size = fsize f,
                                d_width = naturalWidth img,
                                d_height = naturalHeight img,
                                d_dataUrl = src img\<rparr>, w')))))"

record conversion =
  r_blob :: blob
  r_previewUrl :: url
  r_size :: nat
  r_originalSize :: nat
  r_reduction :: string
  r_quality :: number
  r_width :: nat
  r_height :: nat

text \<open>
  \<open>convertToWebP(quality)\<close> suspends once, at \<open>canvas.toBlob\<close>. The model has one
  function for the part before the suspension and one for the part after it, so that
  other calls can run in between. What a suspended call remembers is its \<open>pending\<close>
  record: the argument and the canvas.
\<close>

record pending =
  p_quality :: number
  p_width :: nat
  p_height :: nat

text \<open>
  The first part. \<open>qarg\<close> is the argument (\<open>None\<close> when it is left out, and the
  stored quality is the default); \<open>canvas_throw\<close> is the message of the exception that
  creating the canvas or drawing on it throws, if it throws. A result \<open>Inl\<close> is a call
  that has ended with that exception; \<open>Inr\<close> is a call suspended at \<open>toBlob\<close>.
\<close>

definition convertToWebP_start :: "world \<Rightarrow> number option \<Rightarrow> string option \<Rightarrow> (exn + pending) \<times> world" where
  "convertToWebP_start w qarg canvas_throw =
     (let q = (case qarg of None \<Rightarrow> quality (state w) | Some q \<Rightarrow> q)
      in (case originalImage (state w) of
            None \<Rightarrow> (Inl (Error ''No image loaded for conversion''), w)
          | Some img \<Rightarrow>
              if isConverting (state w) then (Inl (Error ''Conversion already in progress''), w)
              else
                (let w1 = w\<lparr>state := (state w)\<lparr>isConverting := True, quality := q\<rparr>\<rparr>
                 in (case canvas_throw of
                       Some m \<Rightarrow>
                         (Inl (Error (''Conversion failed: '' @ m)),
                          w1\<lparr>state := (state w1)\<lparr>isConverting := False\<rparr>\<rparr>)
                     | None \<Rightarrow>
                         (Inr \<lparr>p_quality = q, p_width = naturalWidth img,
                               p_height = naturalHeight img\<rparr>, w1)))))"

text \<open>
  The second part, run when the encoder answers with a blob or with \<open>null\<close>. It works
  on the state as it is at that moment.
\<close>

definition convertToWebP_resume :: "world \<Rightarrow> pending \<Rightarrow> blob option \<Rightarrow> (exn + conversion) \<times> world" where
  "convertToWebP_resume w p answer =
     (let finally = (\<lambda>v. v\<lparr>state := (state v)\<lparr>isConverting := False\<rparr>\<rparr>)
      in (case answer of
            None \<Rightarrow>
              (Inl (Error (''Conversion failed: '' @ ''Failed to convert image to WebP'')), finally w)
          | Some b \<Rightarrow>
              (let w1 = w\<lparr>state := (state w)\<lparr>convertedBlob := Some b\<rparr>\<rparr>;
                   (previewUrl, w2) = createObjectURL w1 b
               in (case originalFile (state w2) of
                     None \<Rightarrow>
                       (Inl (Error (''Conversion failed: '' @
                                    ''Cannot read properties of null (reading 'size')'')),
                        finally w2)
                   | Some f \<Rightarrow>
                       (let originalSize = fsize f; newSize = blob_size b
                        in (case calculateReduction originalSize newSize of
                              Inl e \<Rightarrow>
                                (Inl (Error (''Conversion failed: '' @
                                      (case e of Error m \<Rightarrow> m | TypeError m \<Rightarrow> m | RangeError m \<Rightarrow> m))),
                                 finally w2)
                            | Inr reduction \<Rightarrow>
                                (Inr \<lparr>r_blob = b, r_previewUrl = previewUrl, r_size = newSize,
                                      r_originalSize = originalSize, r_reduction = reduction,
                                      r_quality = num_mul (p_quality p) (Fin 100),
                                      r_width = p_width p, r_height = p_height p\<rparr>,
                                 finally w2)))))))"

text \<open>The whole call, when nothing else runs while it is suspended.\<close>

definition convertToWebP :: "world \<Rightarrow> number option \<Rightarrow> string option \<Rightarrow> blob option \<Rightarrow> (exn + conversion) \<times> world" where
  "convertToWebP w qarg canvas_throw answer =
     (case convertToWebP_start w qarg canvas_throw of
        (Inl e, w') \<Rightarrow> (Inl e, w')
      | (Inr p, w') \<Rightarrow> convertToWebP_resume w' p answer)"

definition updateQuality :: "world \<Rightarrow> number \<Rightarrow> string option \<Rightarrow> blob option \<Rightarrow> (exn + conversion) \<times> world" where
  "updateQuality w percent canvas_throw answer =
     (let normalizedQuality = num_div percent (Fin 100)
      in convertToWebP w (Some normalizedQuality) canvas_throw answer)"

record download =
  dl_name :: string
  dl_blob :: blob
  dl_url :: url

text \<open>
  \<open>downloadWebP(filename)\<close>: the click on the link is the \<open>download\<close> it returns. The
  URL it creates is revoked by a timer 100 ms later, which is \<open>revokeObjectURL\<close> on the
  world of that moment. An empty \<open>filename\<close> is falsy, like \<open>null\<close>.
\<close>

definition downloadWebP :: "world \<Rightarrow> string option \<Rightarrow> (exn + download) \<times> world" where
  "downloadWebP w filename =
     (case convertedBlob (state w) of
        None \<Rightarrow> (Inl (Error ''No converted image available for download''), w)
      | Some b \<Rightarrow>
          (let trigger = (\<lambda>downloadName.
                 (let (downloadUrl, w') = createObjectURL w b
                  in (Inr \<lparr>dl_name = downloadName, dl_blob = b, dl_url = downloadUrl\<rparr>, w')))
           in (case filename of
                 Some n \<Rightarrow>
                   if n \<noteq> [] then trigger n
                   else (case originalFile (state w) of
                           None \<Rightarrow> (Inl (TypeError ''Cannot read properties of null (reading 'name')''), w)
                         | Some f \<Rightarrow> trigger (generateWebPFilename (fname f)))
               | None \<Rightarrow>
                   (case originalFile (state w) of
                      None \<Rightarrow> (Inl (TypeError ''Cannot read properties of null (reading 'name')''), w)
                    | Some f \<Rightarrow> trigger (generateWebPFilename (fname f))))))"

definition reset :: "world \<Rightarrow> world" where
  "reset w =
     (let w1 = (case originalImage (state w) of
                  Some img \<Rightarrow> revokeObjectURL w (src img)
                | None \<Rightarrow> w)
      in w1\<lparr>state := \<lparr>originalFile = None, originalImage = None, convertedBlob = None,
                       quality = Fin (9 / 10), isConverting = False\<rparr>\<rparr>)"

definition getState :: "world \<Rightarrow> state" where
  "getState w = state w"

definition hasImage :: "world \<Rightarrow> bool" where
  "hasImage w = (originalImage (state w) \<noteq> None)"

definition isConverted :: "world \<Rightarrow> bool" where
  "isConverted w = (convertedBlob (state w) \<noteq> None)"

text \<open>
  The worlds the engine can be in: from the initial one, by any of its operations, each
  with any answer of the browser. A suspended conversion may be resumed at any later
  moment, so \<open>convertToWebP_resume\<close> may run with any \<open>pending\<close> record.
\<close>

inductive reachable :: "world \<Rightarrow> bool" where
  r_init: "reachable initial_world"
| r_load: "reachable w \<Longrightarrow> reachable (snd (loadImageFile w fo out))"
| r_start: "reachable w \<Longrightarrow> reachable (snd (convertToWebP_start w qarg canvas_throw))"
| r_resume: "reachable w \<Longrightarrow> reachable (snd (convertToWebP_resume w p answer))"
| r_download: "reachable w \<Longrightarrow> reachable (snd (downloadWebP w filename))"
| r_revoke: "reachable w \<Longrightarrow> reachable (revokeObjectURL w u)"
| r_reset: "reachable w \<Longrightarrow> reachable (reset w)"

section \<open>A session\<close>

text \<open>
  The values of one session, used to run the engine: a 5,000,000-byte PNG and its
  decoded image, a GIF, and two blobs that the encoder returns.
\<close>

definition photo_png :: jsfile where
  "photo_png = \<lparr>fname = ''photo.png'', ftype = ''image/png'', fsize = 5000000\<rparr>"

definition photo_image :: image where
  "photo_image =
     \<lparr>src = DataURL ''data:image/png;base64,iVBORw0KGgo='', naturalWidth = 800,
      naturalHeight = 600\<rparr>"

definition logo_gif :: jsfile where
  "logo_gif = \<lparr>fname = ''logo.gif'', ftype = ''image/gif'', fsize = 20000\<rparr>"

definition logo_image :: image where
  "logo_image =
     \<lparr>src = DataURL ''data:image/gif;base64,R0lGODlhAQABAAAAACw='', naturalWidth = 64,
      naturalHeight = 64\<rparr>"

definition webp_blob :: blob where
  "webp_blob = \<lparr>blob_size = 3000000, blob_type = ''image/webp''\<rparr>"

definition small_blob :: blob where
  "small_blob = \<lparr>blob_size = 1000000, blob_type = ''image/webp''\<rparr>"

text \<open>The photo has been loaded.\<close>

definition loaded_world :: world where
  "loaded_world = snd (loadImageFile initial_world (Some photo_png) (ImageLoaded photo_image))"

text \<open>A conversion of the photo at quality 0.5 has started and waits for the encoder.\<close>

definition converting_world :: world where
  "converting_world = snd (convertToWebP_start loaded_world (Some (Fin (1 / 2))) None)"

text \<open>That conversion has ended with \<open>webp_blob\<close>.\<close>

definition converted_world :: world where
  "converted_world = snd (convertToWebP loaded_world (Some (Fin (1 / 2))) None (Some webp_blob))"

section \<open>Evaluation rules\<close>

lemma floor_rat_numerals: "\<lfloor>(numeral a :: rat) / numeral b\<rfloor> = numeral a div numeral b"
  using floor_divide_of_int_eq [of "numeral a" "numeral b", where ?'a = rat] by simp

lemma show_nat_digit: "n < 10 \<Longrightarrow> show_nat n = [digit_char n]"
  by (simp add: show_nat.simps [of n])

lemma show_nat_more: "10 \<le> n \<Longrightarrow> show_nat n = show_nat (n div 10) @ [digit_char (n mod 10)]"
  by (simp add: show_nat.simps [of n])

lemma floor_log_small: "n < k \<Longrightarrow> floor_log k n = 0"
  by (simp add: floor_log.simps [of k n])

lemma floor_log_step: "2 \<le> k \<Longrightarrow> k \<le> n \<Longrightarrow> floor_log k n = Suc (floor_log k (n div k))"
  by (simp add: floor_log.simps [of k n])

lemmas format_eval =
  formatFileSize_def toFixed_def fixed_digits_def parseFloat_show_def index_text_def sizes_def
  of_size_def bind_exn_def pad_zeros_def digit_char_def Let_def floor_rat_numerals
  show_nat_digit show_nat_more floor_log_small floor_log_step

section \<open>The logarithm of \<open>formatFileSize\<close>\<close>

lemma floor_log_bounds:
  "2 \<le> k \<Longrightarrow> 0 < n \<Longrightarrow> k ^ floor_log k n \<le> n \<and> n < k ^ Suc (floor_log k n)"
proof (induction k n rule: floor_log.induct)
  case (1 k n)
  show ?case
  proof (cases "n < k")
    case True
    with "1.prems" show ?thesis by (simp add: floor_log_small)
  next
    case False
    with "1.prems" have pos: "0 < n div k" by (simp add: div_greater_zero_iff)
    from False "1.prems" have step: "floor_log k n = Suc (floor_log k (n div k))"
      by (simp add: floor_log_step)
    from "1.IH" False "1.prems" pos
    have ih: "k ^ floor_log k (n div k) \<le> n div k \<and> n div k < k ^ Suc (floor_log k (n div k))"
      by simp
    have lo: "k ^ Suc (floor_log k (n div k)) \<le> n"
    proof -
      have "k * k ^ floor_log k (n div k) \<le> k * (n div k)" using ih by simp
      also have "\<dots> \<le> n" by simp
      finally show ?thesis by simp
    qed
    have hi: "n < k ^ Suc (Suc (floor_log k (n div k)))"
    proof -
      from ih have "n div k < k ^ Suc (floor_log k (n div k))" by simp
      then have "n < k ^ Suc (floor_log k (n div k)) * k"
        using "1.prems" by (simp add: div_less_iff_less_mult)
      then show ?thesis by (simp add: mult.commute)
    qed
    from lo hi step show ?thesis by simp
  qed
qed

text \<open>
  \<open>floor_log\<close> is the floor of the real logarithm that the source computes with
  \<open>Math.log\<close>.
\<close>

lemma floor_log_is_floor_of_log:
  assumes "0 < n"
  shows "\<lfloor>log 1024 (real n)\<rfloor> = int (floor_log 1024 n)"
proof -
  from floor_log_bounds [of 1024 n] assms
  have "1024 ^ floor_log 1024 n \<le> n" "n < 1024 ^ (floor_log 1024 n + 1)" by simp_all
  then show ?thesis
    using floor_log_nat_eq_if [of 1024 "floor_log 1024 n" n] by simp
qed

lemma floor_log_in_table: "0 < n \<Longrightarrow> n < 1024 ^ 4 \<Longrightarrow> floor_log 1024 n < 4"
proof -
  assume "0 < n" and small: "n < 1024 ^ 4"
  then have "(1024::nat) ^ floor_log 1024 n \<le> n" using floor_log_bounds [of 1024 n] by simp
  then have "(1024::nat) ^ floor_log 1024 n < 1024 ^ 4" using small by (rule le_less_trans)
  then show ?thesis by (simp only: power_strict_increasing_iff rel_simps)
qed

lemma floor_log_past_table: "1024 ^ 4 \<le> n \<Longrightarrow> 4 \<le> floor_log 1024 n"
proof -
  assume big: "1024 ^ 4 \<le> n"
  then have "0 < n" by (simp add: less_le_trans [of 0 "1024 ^ 4"])
  then have "n < (1024::nat) ^ Suc (floor_log 1024 n)" using floor_log_bounds [of 1024 n] by simp
  with big have "(1024::nat) ^ 4 < 1024 ^ Suc (floor_log 1024 n)" by (rule le_less_trans)
  then have "4 < Suc (floor_log 1024 n)" by (simp only: power_strict_increasing_iff rel_simps)
  then show ?thesis by simp
qed

section \<open>Totality of the formatters\<close>

lemma toFixed_total: "0 \<le> d \<Longrightarrow> d \<le> 100 \<Longrightarrow> \<exists>s. toFixed x d = Inr s"
  by (cases x) (simp_all add: toFixed_def)

lemma formatFileSize_shape:
  assumes "0 < n"
  shows "\<exists>s. formatFileSize n 2 = Inr (s @ '' '' @ index_text sizes (floor_log 1024 n))"
proof -
  obtain t where "toFixed (num_div (of_size n) (of_size (1024 ^ floor_log 1024 n))) 2 = Inr t"
    using toFixed_total [of 2] by force
  with assms have "formatFileSize n 2 = Inr (parseFloat_show t @ '' '' @ index_text sizes (floor_log 1024 n))"
    by (simp add: formatFileSize_def bind_exn_def Let_def)
  then show ?thesis by blast
qed

lemma formatFileSize_total: "\<exists>s. formatFileSize n 2 = Inr s"
proof (cases "n = 0")
  case True
  then show ?thesis by (simp add: formatFileSize_def)
next
  case False
  then show ?thesis using formatFileSize_shape [of n] by auto
qed

text \<open>Below \<open>1024^4\<close> bytes the unit is one of the table.\<close>

lemma formatFileSize_unit_in_table:
  assumes "0 < n" "n < 1024 ^ 4"
  shows "\<exists>s u. formatFileSize n 2 = Inr (s @ '' '' @ u) \<and> u \<in> set sizes"
proof -
  from assms have i: "floor_log 1024 n < 4" by (rule floor_log_in_table)
  have "length sizes = 4" by (simp add: sizes_def)
  with i have "index_text sizes (floor_log 1024 n) \<in> set sizes"
    by (simp add: index_text_def)
  with formatFileSize_shape [OF assms(1)] show ?thesis by blast
qed

text \<open>From \<open>1024^4\<close> bytes on the index is past the table, and the unit is \<open>undefined\<close>.\<close>

lemma formatFileSize_unit_missing:
  assumes "1024 ^ 4 \<le> n"
  shows "\<exists>s. formatFileSize n 2 = Inr (s @ '' undefined'')"
proof -
  from assms have "4 \<le> floor_log 1024 n" by (rule floor_log_past_table)
  then have u: "index_text sizes (floor_log 1024 n) = ''undefined''"
    by (simp add: index_text_def sizes_def)
  from assms have "0 < n" by (simp add: less_le_trans [of 0 "1024 ^ 4"])
  from formatFileSize_shape [OF this] u show ?thesis by auto
qed

section \<open>File names\<close>

lemma split_js_nonempty: "split_js c s \<noteq> []"
  by (induction s) (auto split: list.splits)

lemma last_index_absent: "c \<notin> set s \<Longrightarrow> last_index_from c s i best = best"
  by (induction s arbitrary: i best) auto

lemma last_index_present:
  "c \<notin> set b \<Longrightarrow> last_index_from c (a @ c # b) i best = i + int (length a)"
  by (induction a arbitrary: i best) (auto simp: last_index_absent)

text \<open>A name with a dot loses what follows its last dot.\<close>

lemma generateWebPFilename_dotted:
  assumes "CHR ''.'' \<notin> set ext"
  shows "generateWebPFilename (stem @ CHR ''.'' # ext) = stem @ ''.webp''"
proof -
  from assms have "lastIndexOf (stem @ CHR ''.'' # ext) (CHR ''.'') = int (length stem)"
    by (simp add: lastIndexOf_def last_index_present)
  then show ?thesis by (simp add: generateWebPFilename_def substring_def Let_def)
qed

text \<open>A name with no dot loses everything: \<open>lastIndexOf\<close> is -1 and the substring is empty.\<close>

lemma generateWebPFilename_no_dot:
  assumes "CHR ''.'' \<notin> set name"
  shows "generateWebPFilename name = ''.webp''"
proof -
  from assms have "lastIndexOf name (CHR ''.'') = - 1"
    by (simp add: lastIndexOf_def last_index_absent)
  then show ?thesis by (simp add: generateWebPFilename_def substring_def Let_def)
qed

section \<open>Validation\<close>

lemma supported_names:
  "map_exn subtype_upper SUPPORTED_TYPES = Inr [''PNG'', ''JPEG'', ''JPG'', ''GIF'', ''BMP'', ''SVG+XML'']"
  by (simp add: SUPPORTED_TYPES_def subtype_upper_def toUpperCase_def upper_char_def bind_exn_def)

lemma limit_text: "formatFileSize MAX_FILE_SIZE 2 = Inr ''10 MB''"
  by (simp add: format_eval MAX_FILE_SIZE_def)


section \<open>The session, step by step\<close>

lemma photo_valid: "validateFile (Some photo_png) = Inr \<lparr>valid = True, error = None\<rparr>"
  by (simp add: validateFile_def photo_png_def isValidFileType_def isValidFileSize_def
      SUPPORTED_TYPES_def MAX_FILE_SIZE_def)

lemma logo_valid: "validateFile (Some logo_gif) = Inr \<lparr>valid = True, error = None\<rparr>"
  by (simp add: validateFile_def logo_gif_def isValidFileType_def isValidFileSize_def
      SUPPORTED_TYPES_def MAX_FILE_SIZE_def)

lemma load_photo:
  "loadImageFile initial_world (Some photo_png) (ImageLoaded photo_image) =
     (Inr \<lparr>d_file = photo_png, d_image = photo_image, d_format = ''PNG'', d_size = 5000000,
           d_width = 800, d_height = 600,
           d_dataUrl = DataURL ''data:image/png;base64,iVBORw0KGgo=''\<rparr>,
      \<lparr>state = \<lparr>originalFile = Some photo_png, originalImage = Some photo_image,
                 convertedBlob = None, quality = Fin (9 / 10), isConverting = False\<rparr>,
       objectURLs = [], nextURL = 0\<rparr>)"
proof -
  have ext: "getFileExtension (fname photo_png) = ''PNG''"
    by (simp add: getFileExtension_def photo_png_def toUpperCase_def upper_char_def)
  show ?thesis
    by (simp add: loadImageFile_def photo_valid loadImage_def initial_world_def initial_state_def
        ext Let_def)
      (simp add: photo_png_def photo_image_def)
qed

lemma loaded_world_eq:
  "loaded_world =
     \<lparr>state = \<lparr>originalFile = Some photo_png, originalImage = Some photo_image,
                convertedBlob = None, quality = Fin (9 / 10), isConverting = False\<rparr>,
      objectURLs = [], nextURL = 0\<rparr>"
  by (simp add: loaded_world_def load_photo)

lemma converting_world_eq:
  "converting_world =
     \<lparr>state = \<lparr>originalFile = Some photo_png, originalImage = Some photo_image,
                convertedBlob = None, quality = Fin (1 / 2), isConverting = True\<rparr>,
      objectURLs = [], nextURL = 0\<rparr>"
  by (simp add: converting_world_def loaded_world_eq convertToWebP_start_def Let_def)

lemma start_photo:
  "convertToWebP_start loaded_world (Some (Fin (1 / 2))) None =
     (Inr \<lparr>p_quality = Fin (1 / 2), p_width = 800, p_height = 600\<rparr>, converting_world)"
  by (simp add: converting_world_eq loaded_world_eq convertToWebP_start_def Let_def photo_image_def)

lemma reduction_photo: "calculateReduction 5000000 3000000 = Inr ''-40.0%''"
  by (simp add: calculateReduction_def format_eval)

lemma reduction_photo_small: "calculateReduction 5000000 1000000 = Inr ''-80.0%''"
  by (simp add: calculateReduction_def format_eval)

lemma convert_photo:
  "convertToWebP loaded_world (Some (Fin (1 / 2))) None (Some webp_blob) =
     (Inr \<lparr>r_blob = webp_blob, r_previewUrl = BlobURL 0, r_size = 3000000,
           r_originalSize = 5000000, r_reduction = ''-40.0%'', r_quality = Fin 50,
           r_width = 800, r_height = 600\<rparr>,
      \<lparr>state = \<lparr>originalFile = Some photo_png, originalImage = Some photo_image,
                 convertedBlob = Some webp_blob, quality = Fin (1 / 2), isConverting = False\<rparr>,
       objectURLs = [(0, webp_blob)], nextURL = 1\<rparr>)"
  by (simp add: convertToWebP_def start_photo converting_world_eq convertToWebP_resume_def
      createObjectURL_def Let_def photo_png_def webp_blob_def reduction_photo)

lemma converted_world_eq:
  "converted_world =
     \<lparr>state = \<lparr>originalFile = Some photo_png, originalImage = Some photo_image,
                convertedBlob = Some webp_blob, quality = Fin (1 / 2), isConverting = False\<rparr>,
      objectURLs = [(0, webp_blob)], nextURL = 1\<rparr>"
  by (simp add: converted_world_def convert_photo)

section \<open>What each operation does to the state\<close>

lemma start_no_image:
  "originalImage (state w) = None \<Longrightarrow>
   convertToWebP_start w qarg canvas_throw = (Inl (Error ''No image loaded for conversion''), w)"
  by (simp add: convertToWebP_start_def Let_def)

lemma start_busy:
  "originalImage (state w) \<noteq> None \<Longrightarrow> isConverting (state w) \<Longrightarrow>
   convertToWebP_start w qarg canvas_throw = (Inl (Error ''Conversion already in progress''), w)"
  by (auto simp: convertToWebP_start_def Let_def)

lemma start_throws:
  "originalImage (state w) \<noteq> None \<Longrightarrow> \<not> isConverting (state w) \<Longrightarrow>
   convertToWebP_start w qarg (Some m) =
     (Inl (Error (''Conversion failed: '' @ m)),
      w\<lparr>state := (state w)\<lparr>quality := (case qarg of None \<Rightarrow> quality (state w) | Some q \<Rightarrow> q),
                             isConverting := False\<rparr>\<rparr>)"
  by (auto simp: convertToWebP_start_def Let_def)

lemma start_suspends:
  "originalImage (state w) = Some img \<Longrightarrow> \<not> isConverting (state w) \<Longrightarrow>
   convertToWebP_start w qarg None =
     (Inr \<lparr>p_quality = (case qarg of None \<Rightarrow> quality (state w) | Some q \<Rightarrow> q),
           p_width = naturalWidth img, p_height = naturalHeight img\<rparr>,
      w\<lparr>state := (state w)\<lparr>isConverting := True,
                             quality := (case qarg of None \<Rightarrow> quality (state w) | Some q \<Rightarrow> q)\<rparr>\<rparr>)"
  by (simp add: convertToWebP_start_def Let_def)

lemma resume_clears_flag: "\<not> isConverting (state (snd (convertToWebP_resume w p answer)))"
  by (simp add: convertToWebP_resume_def createObjectURL_def Let_def
      split: option.splits sum.splits prod.splits)

lemma resume_null:
  "convertToWebP_resume w p None =
     (Inl (Error ''Conversion failed: Failed to convert image to WebP''),
      w\<lparr>state := (state w)\<lparr>isConverting := False\<rparr>\<rparr>)"
  by (simp add: convertToWebP_resume_def)

lemma load_keeps_flag:
  "isConverting (state (snd (loadImageFile w fo out))) = isConverting (state w)"
  by (simp add: loadImageFile_def Let_def split: sum.splits option.splits)

lemma load_keeps_blob:
  "convertedBlob (state (snd (loadImageFile w fo out))) = convertedBlob (state w)"
  by (simp add: loadImageFile_def Let_def split: sum.splits option.splits)

lemma load_keeps_image:
  "originalImage (state w) \<noteq> None \<Longrightarrow> originalImage (state (snd (loadImageFile w fo out))) \<noteq> None"
  by (simp add: loadImageFile_def Let_def split: sum.splits option.splits)

lemma download_keeps_state: "state (snd (downloadWebP w filename)) = state w"
  by (simp add: downloadWebP_def createObjectURL_def Let_def split: option.splits)

lemma revoke_keeps_state: "state (revokeObjectURL w u) = state w"
  by (simp add: revokeObjectURL_def split: url.splits)

lemma reset_state: "state (reset w) = initial_state"
  by (simp add: reset_def initial_state_def Let_def)

text \<open>
  While the flag is set there is an image: the flag is only set by a call that found
  one, and only \<open>reset\<close>, which clears the flag, removes the image.
\<close>

lemma converting_has_image:
  "reachable w \<Longrightarrow> isConverting (state w) \<Longrightarrow> originalImage (state w) \<noteq> None"
proof (induction rule: reachable.induct)
  case r_init
  then show ?case by (simp add: initial_world_def initial_state_def)
next
  case (r_load w fo out)
  then show ?case by (simp add: load_keeps_flag load_keeps_image)
next
  case (r_start w qarg canvas_throw)
  then show ?case
    by (auto simp: convertToWebP_start_def Let_def split: option.splits if_splits)
next
  case (r_resume w p answer)
  then show ?case by (simp add: resume_clears_flag)
next
  case (r_download w filename)
  then show ?case by (simp add: download_keeps_state)
next
  case (r_revoke w u)
  then show ?case by (simp add: revoke_keeps_state)
next
  case (r_reset w)
  then show ?case by (simp add: reset_state initial_state_def)
qed

lemma reachable_converting: "reachable converting_world"
  unfolding converting_world_def loaded_world_def
  by (intro r_start r_load r_init)


section \<open>Claims about Utils\<close>

text \<open>
  C7. \<open>validateFile\<close> checks in a fixed order. A missing file is refused with
  "No file selected". Otherwise a type outside the allow-list of exactly six MIME
  types is refused with a message that lists the six formats in upper case,
  whatever the size. Otherwise a size above 10,485,760 bytes is refused with a
  message that gives the limit and the size of the file. Otherwise the file is
  valid; a size of exactly 10,485,760 bytes is within the limit.
\<close>

theorem validateFile_order:
  "validateFile None = Inr \<lparr>valid = False, error = Some ''No file selected''\<rparr> \<and>
   set SUPPORTED_TYPES =
     {''image/png'', ''image/jpeg'', ''image/jpg'', ''image/gif'', ''image/bmp'',
      ''image/svg+xml''} \<and>
   length SUPPORTED_TYPES = 6 \<and>
   (ftype f \<notin> set SUPPORTED_TYPES \<longrightarrow>
      validateFile (Some f) =
        Inr \<lparr>valid = False,
             error = Some (''Unsupported file type: '' @ ftype f @
                           ''. Supported formats: PNG, JPEG, JPG, GIF, BMP, SVG+XML'')\<rparr>) \<and>
   (ftype f \<in> set SUPPORTED_TYPES \<and> 10485760 < fsize f \<longrightarrow>
      (\<exists>actual. formatFileSize (fsize f) 2 = Inr actual \<and>
         validateFile (Some f) =
           Inr \<lparr>valid = False,
                error = Some (''File size exceeds 10 MB limit. Selected file: '' @ actual)\<rparr>)) \<and>
   (ftype f \<in> set SUPPORTED_TYPES \<and> fsize f \<le> 10485760 \<longrightarrow>
      validateFile (Some f) = Inr \<lparr>valid = True, error = None\<rparr>)"
proof -
  have none: "validateFile None = Inr \<lparr>valid = False, error = Some ''No file selected''\<rparr>"
    by (simp add: validateFile_def)
  have types: "set SUPPORTED_TYPES =
     {''image/png'', ''image/jpeg'', ''image/jpg'', ''image/gif'', ''image/bmp'',
      ''image/svg+xml''}" "length SUPPORTED_TYPES = 6"
    by (simp_all add: SUPPORTED_TYPES_def)
  have bad_type: "validateFile (Some f) =
        Inr \<lparr>valid = False,
             error = Some (''Unsupported file type: '' @ ftype f @
                           ''. Supported formats: PNG, JPEG, JPG, GIF, BMP, SVG+XML'')\<rparr>"
    if "ftype f \<notin> set SUPPORTED_TYPES"
  proof -
    from that have "\<not> isValidFileType f" by (simp add: isValidFileType_def)
    then show ?thesis by (simp add: validateFile_def supported_names bind_exn_def)
  qed
  have too_large: "\<exists>actual. formatFileSize (fsize f) 2 = Inr actual \<and>
         validateFile (Some f) =
           Inr \<lparr>valid = False,
                error = Some (''File size exceeds 10 MB limit. Selected file: '' @ actual)\<rparr>"
    if "ftype f \<in> set SUPPORTED_TYPES" "10485760 < fsize f"
  proof -
    obtain actual where a: "formatFileSize (fsize f) 2 = Inr actual"
      using formatFileSize_total by blast
    from that have t: "isValidFileType f" by (simp add: isValidFileType_def)
    from that have s: "\<not> isValidFileSize f" by (simp add: isValidFileSize_def MAX_FILE_SIZE_def)
    from t s a have "validateFile (Some f) =
           Inr \<lparr>valid = False,
                error = Some (''File size exceeds 10 MB limit. Selected file: '' @ actual)\<rparr>"
      by (simp add: validateFile_def limit_text bind_exn_def)
    with a show ?thesis by blast
  qed
  have ok: "validateFile (Some f) = Inr \<lparr>valid = True, error = None\<rparr>"
    if "ftype f \<in> set SUPPORTED_TYPES" "fsize f \<le> 10485760"
  proof -
    from that have t: "isValidFileType f" by (simp add: isValidFileType_def)
    from that have s: "isValidFileSize f" by (simp add: isValidFileSize_def MAX_FILE_SIZE_def)
    from t s show ?thesis by (simp add: validateFile_def)
  qed
  from none types bad_type too_large ok show ?thesis by blast
qed

theorem validateFile_order_witness:
  "validateFile (Some \<lparr>fname = ''a.png'', ftype = ''image/png'', fsize = 10485760\<rparr>) =
     Inr \<lparr>valid = True, error = None\<rparr> \<and>
   validateFile (Some \<lparr>fname = ''a.tiff'', ftype = ''image/tiff'', fsize = 5\<rparr>) =
     Inr \<lparr>valid = False,
          error = Some ''Unsupported file type: image/tiff. Supported formats: PNG, JPEG, JPG, GIF, BMP, SVG+XML''\<rparr> \<and>
   validateFile (Some \<lparr>fname = ''a.png'', ftype = ''image/png'', fsize = 10485761\<rparr>) =
     Inr \<lparr>valid = False,
          error = Some ''File size exceeds 10 MB limit. Selected file: 10 MB''\<rparr>"
proof -
  have big: "formatFileSize 10485761 2 = Inr ''10 MB''" by (simp add: format_eval)
  have types: "set SUPPORTED_TYPES =
     {''image/png'', ''image/jpeg'', ''image/jpg'', ''image/gif'', ''image/bmp'',
      ''image/svg+xml''}"
    by (simp add: SUPPORTED_TYPES_def)
  show ?thesis
    using validateFile_order [of "\<lparr>fname = ''a.png'', ftype = ''image/png'', fsize = 10485760\<rparr>"]
      validateFile_order [of "\<lparr>fname = ''a.tiff'', ftype = ''image/tiff'', fsize = 5\<rparr>"]
      validateFile_order [of "\<lparr>fname = ''a.png'', ftype = ''image/png'', fsize = 10485761\<rparr>"]
    by (simp add: big types)
qed

text \<open>
  C8. \<open>formatFileSize(0)\<close> is "0 Bytes", \<open>formatFileSize(1536)\<close> is "1.5 KB" and
  \<open>formatFileSize(1048576)\<close> is "1 MB". The unit index is not clamped to the table:
  for \<open>1024^4 = 1099511627776\<close> bytes the index is 4, one past \<open>GB\<close>, and the
  result is "1 undefined".
\<close>

theorem formatFileSize_index_not_clamped:
  "formatFileSize 0 2 = Inr ''0 Bytes'' \<and>
   formatFileSize 1536 2 = Inr ''1.5 KB'' \<and>
   formatFileSize 1048576 2 = Inr ''1 MB'' \<and>
   floor_log 1024 1099511627776 = 4 \<and>
   formatFileSize 1099511627776 2 = Inr ''1 undefined''"
proof -
  have "formatFileSize 0 2 = Inr ''0 Bytes''" by (simp add: format_eval)
  moreover have "formatFileSize 1536 2 = Inr ''1.5 KB''" by (simp add: format_eval)
  moreover have "formatFileSize 1048576 2 = Inr ''1 MB''" by (simp add: format_eval)
  moreover have "floor_log 1024 1099511627776 = 4" by (simp add: floor_log_small floor_log_step)
  moreover have "formatFileSize 1099511627776 2 = Inr ''1 undefined''" by (simp add: format_eval)
  ultimately show ?thesis by blast
qed

text \<open>
  C9. \<open>generateWebPFilename("photo.png")\<close> is "photo.webp" and
  \<open>generateWebPFilename("my.photo.jpeg")\<close> is "my.photo.webp". A name with no dot
  is not kept: \<open>generateWebPFilename("photo")\<close> is ".webp".
\<close>

theorem generateWebPFilename_examples:
  "generateWebPFilename ''photo.png'' = ''photo.webp'' \<and>
   generateWebPFilename ''my.photo.jpeg'' = ''my.photo.webp'' \<and>
   generateWebPFilename ''photo'' = ''.webp''"
  by (simp add: generateWebPFilename_def lastIndexOf_def substring_def Let_def)

text \<open>
  C10. For every size \<open>n > 0\<close>, \<open>calculateReduction(n, n)\<close> is "-0.0%"; and whenever
  the new size is at most the original size (which is positive), the sign is "-".
\<close>

theorem calculateReduction_zero_change:
  "(0 < n \<longrightarrow> calculateReduction n n = Inr ''-0.0%'') \<and>
   (0 < originalSize \<and> newSize \<le> originalSize \<longrightarrow>
      (\<exists>digits. calculateReduction originalSize newSize = Inr (''-'' @ digits @ ''%'')))"
proof -
  have same: "calculateReduction n n = Inr ''-0.0%''" if "0 < n"
  proof -
    from that have "num_div (num_sub (of_size n) (of_size n)) (of_size n) = Fin 0"
      by (simp add: of_size_def)
    then show ?thesis
      by (simp add: calculateReduction_def toFixed_def fixed_digits_def bind_exn_def
          pad_zeros_def digit_char_def Let_def show_nat_digit floor_eq_iff)
  qed
  have shrank: "\<exists>digits. calculateReduction originalSize newSize = Inr (''-'' @ digits @ ''%'')"
    if "0 < originalSize" "newSize \<le> originalSize"
  proof -
    let ?r = "((of_nat originalSize - of_nat newSize) / of_nat originalSize * 100 :: rat)"
    from that have r: "num_mul (num_div (num_sub (of_size originalSize) (of_size newSize))
                         (of_size originalSize)) (Fin 100) = Fin ?r"
      by (simp add: of_size_def)
    from that have "0 \<le> ?r" by simp
    then have ge: "num_ge0 (Fin ?r)" by simp
    obtain digits where "toFixed (num_abs (Fin ?r)) 1 = Inr digits"
      using toFixed_total [of 1] by force
    with r ge have "calculateReduction originalSize newSize = Inr (''-'' @ digits @ ''%'')"
      by (simp add: calculateReduction_def bind_exn_def Let_def del: num_abs.simps num_ge0.simps)
    then show ?thesis by blast
  qed
  from same shrank show ?thesis by blast
qed

theorem calculateReduction_zero_change_witness:
  "calculateReduction 7 7 = Inr ''-0.0%'' \<and>
   (\<exists>digits. calculateReduction 1000 600 = Inr (''-'' @ digits @ ''%''))"
  using calculateReduction_zero_change [of 7 1000 600] by simp

text \<open>When the new size is larger, the sign is "+".\<close>

lemma calculateReduction_grew:
  assumes "0 < originalSize" "originalSize < newSize"
  shows "\<exists>digits. calculateReduction originalSize newSize = Inr (''+'' @ digits @ ''%'')"
proof -
  let ?r = "((of_nat originalSize - of_nat newSize) / of_nat originalSize * 100 :: rat)"
  from assms have r: "num_mul (num_div (num_sub (of_size originalSize) (of_size newSize))
                       (of_size originalSize)) (Fin 100) = Fin ?r"
    by (simp add: of_size_def)
  from assms have "?r < 0" by (simp add: divide_neg_pos)
  then have ge: "\<not> num_ge0 (Fin ?r)" by simp
  obtain digits where "toFixed (num_abs (Fin ?r)) 1 = Inr digits"
    using toFixed_total [of 1] by force
  with r ge have "calculateReduction originalSize newSize = Inr (''+'' @ digits @ ''%'')"
    by (simp add: calculateReduction_def bind_exn_def Let_def del: num_abs.simps num_ge0.simps)
  then show ?thesis by blast
qed

lemma calculateReduction_examples:
  "calculateReduction 1000 600 = Inr ''-40.0%'' \<and> calculateReduction 1000 1500 = Inr ''+50.0%''"
  by (simp add: calculateReduction_def format_eval)


section \<open>Claims about the engine\<close>

text \<open>
  C1, as the claim states it, fails: the call that is refused because a conversion is
  in progress is an exit of \<open>convertToWebP\<close> too, and it leaves the flag set.
\<close>

theorem second_call_leaves_flag_set:
  "fst (convertToWebP converting_world (Some (Fin (9 / 10))) None (Some small_blob)) =
     Inl (Error ''Conversion already in progress'') \<and>
   isConverting (state (snd (convertToWebP converting_world (Some (Fin (9 / 10))) None
                               (Some small_blob))))"
  by (simp add: convertToWebP_def convertToWebP_start_def converting_world_eq Let_def)

text \<open>
  C1, amended. In every world the engine can reach in which the flag is set, a further
  call of \<open>convertToWebP\<close> fails with "Conversion already in progress" and changes
  nothing, so the flag stays set and the pending conversion is untouched. A call that
  has passed both checks clears the flag on each of its exits: when the canvas throws,
  when the encoder answers \<open>null\<close>, and when it answers with a blob; the resumed part
  clears it in whatever world it is resumed.
\<close>

theorem single_flight:
  "(reachable w \<and> isConverting (state w) \<longrightarrow>
      convertToWebP_start w qarg canvas_throw =
        (Inl (Error ''Conversion already in progress''), w) \<and>
      convertToWebP w qarg canvas_throw answer =
        (Inl (Error ''Conversion already in progress''), w)) \<and>
   (originalImage (state v) \<noteq> None \<and> \<not> isConverting (state v) \<longrightarrow>
      \<not> isConverting (state (snd (convertToWebP v qarg canvas_throw answer)))) \<and>
   \<not> isConverting (state (snd (convertToWebP_resume v p answer)))"
proof -
  have busy: "convertToWebP_start w qarg canvas_throw =
        (Inl (Error ''Conversion already in progress''), w)"
    if "reachable w" "isConverting (state w)"
    using that converting_has_image [of w] by (simp add: start_busy)
  then have busy': "convertToWebP w qarg canvas_throw answer =
        (Inl (Error ''Conversion already in progress''), w)"
    if "reachable w" "isConverting (state w)"
    using that by (simp add: convertToWebP_def)
  have passed: "\<not> isConverting (state (snd (convertToWebP v qarg canvas_throw answer)))"
    if "originalImage (state v) \<noteq> None" "\<not> isConverting (state v)"
  proof (cases canvas_throw)
    case None
    from that obtain img where "originalImage (state v) = Some img" by auto
    with that None show ?thesis
      by (simp add: convertToWebP_def start_suspends resume_clears_flag)
  next
    case (Some m)
    with that show ?thesis by (simp add: convertToWebP_def start_throws)
  qed
  from busy busy' passed resume_clears_flag show ?thesis by blast
qed

theorem single_flight_witness:
  "isConverting (state converting_world) \<and>
   convertToWebP_start converting_world (Some (Fin (9 / 10))) None =
     (Inl (Error ''Conversion already in progress''), converting_world) \<and>
   \<not> isConverting (state (snd (convertToWebP loaded_world (Some (Fin (1 / 2))) None None))) \<and>
   \<not> isConverting (state (snd (convertToWebP_resume converting_world
        \<lparr>p_quality = Fin (1 / 2), p_width = 800, p_height = 600\<rparr> (Some webp_blob))))"
proof -
  have flag: "isConverting (state converting_world)" by (simp add: converting_world_eq)
  have idle: "originalImage (state loaded_world) \<noteq> None \<and> \<not> isConverting (state loaded_world)"
    by (simp add: loaded_world_eq)
  from flag idle reachable_converting
    single_flight [of converting_world "Some (Fin (9 / 10))" None "None" loaded_world]
    single_flight [of converting_world "Some (Fin (1 / 2))" None "None" loaded_world]
    single_flight [of converting_world "Some (Fin (1 / 2))" None "Some webp_blob" converting_world
      "\<lparr>p_quality = Fin (1 / 2), p_width = 800, p_height = 600\<rparr>"]
  show ?thesis by simp
qed

text \<open>
  C2, as the claim states it, fails: after loading the photo and converting it at
  quality 0.5, the \<open>quality\<close> of the result is 50.
\<close>

theorem result_quality_is_percent:
  "fst (loadImageFile initial_world (Some photo_png) (ImageLoaded photo_image)) =
     Inr \<lparr>d_file = photo_png, d_image = photo_image, d_format = ''PNG'', d_size = 5000000,
          d_width = 800, d_height = 600,
          d_dataUrl = DataURL ''data:image/png;base64,iVBORw0KGgo=''\<rparr> \<and>
   fst (convertToWebP loaded_world (Some (Fin (1 / 2))) None (Some webp_blob)) =
     Inr \<lparr>r_blob = webp_blob, r_previewUrl = BlobURL 0, r_size = 3000000,
          r_originalSize = 5000000, r_reduction = ''-40.0%'', r_quality = Fin 50,
          r_width = 800, r_height = 600\<rparr> \<and>
   Fin 50 \<noteq> Fin (1 / 2)"
  by (simp add: load_photo convert_photo)

text \<open>
  C2, amended. For every quality \<open>q\<close> in \<open>[0, 1]\<close>, after a successful
  \<open>loadImageFile\<close> followed by a successful \<open>convertToWebP(q)\<close>, the engine has an
  image, the quality it has stored is \<open>q\<close>, and the \<open>quality\<close> of the result is
  \<open>q * 100\<close>, a percentage between 0 and 100; it equals \<open>q\<close> only for \<open>q = 0\<close>.
\<close>

theorem load_then_convert:
  assumes range: "0 \<le> q" "q \<le> 1"
    and load: "loadImageFile w (Some f) out = (Inr d, w1)"
    and convert: "convertToWebP w1 (Some (Fin q)) canvas_throw answer = (Inr r, w2)"
  shows "hasImage w2 \<and>
         originalImage (getState w2) = Some (d_image d) \<and>
         quality (getState w2) = Fin q \<and>
         r_quality r = Fin (q * 100) \<and> 0 \<le> q * 100 \<and> q * 100 \<le> 100 \<and>
         (r_quality r = Fin q \<longleftrightarrow> q = 0)"
proof -
  from load have img: "originalImage (state w1) = Some (d_image d)"
    by (auto simp: loadImageFile_def Let_def split: sum.splits option.splits if_splits)
  from convert img have idle: "\<not> isConverting (state w1)"
    by (auto simp: convertToWebP_def convertToWebP_start_def Let_def)
  from convert img idle have no_throw: "canvas_throw = None"
    by (cases canvas_throw) (auto simp: convertToWebP_def convertToWebP_start_def Let_def)
  let ?p = "\<lparr>p_quality = Fin q, p_width = naturalWidth (d_image d),
               p_height = naturalHeight (d_image d)\<rparr>"
  let ?v = "w1\<lparr>state := (state w1)\<lparr>isConverting := True, quality := Fin q\<rparr>\<rparr>"
  from convert img idle no_throw
  have resume: "convertToWebP_resume ?v ?p answer = (Inr r, w2)"
    by (simp add: convertToWebP_def start_suspends)
  from resume have st: "originalImage (state w2) = Some (d_image d) \<and> quality (state w2) = Fin q"
    using img
    by (auto simp: convertToWebP_resume_def createObjectURL_def Let_def
        split: option.splits sum.splits)
  from resume have rq: "r_quality r = Fin (q * 100)"
    by (auto simp: convertToWebP_resume_def createObjectURL_def Let_def
        split: option.splits sum.splits)
  from range have "0 \<le> q * 100 \<and> q * 100 \<le> 100" by simp
  with st rq show ?thesis by (auto simp: hasImage_def getState_def)
qed

theorem load_then_convert_witness:
  "hasImage converted_world \<and> quality (getState converted_world) = Fin (1 / 2)"
proof -
  have range: "(0::rat) \<le> 1 / 2" "(1 / 2 ::rat) \<le> 1" by simp_all
  have convert: "convertToWebP loaded_world (Some (Fin (1 / 2))) None (Some webp_blob) =
     (Inr \<lparr>r_blob = webp_blob, r_previewUrl = BlobURL 0, r_size = 3000000,
           r_originalSize = 5000000, r_reduction = ''-40.0%'', r_quality = Fin 50,
           r_width = 800, r_height = 600\<rparr>, converted_world)"
    by (simp add: convert_photo converted_world_eq)
  have load: "loadImageFile initial_world (Some photo_png) (ImageLoaded photo_image) =
     (Inr \<lparr>d_file = photo_png, d_image = photo_image, d_format = ''PNG'', d_size = 5000000,
           d_width = 800, d_height = 600,
           d_dataUrl = DataURL ''data:image/png;base64,iVBORw0KGgo=''\<rparr>, loaded_world)"
    by (simp add: load_photo loaded_world_eq)
  from load_then_convert [OF range load convert] show ?thesis by simp
qed


text \<open>
  C3, as the claim states it, fails: when the encoder answers \<open>null\<close>, the call fails
  and the stored quality has changed from 0.9 to the requested 0.5.
\<close>

theorem failed_conversion_changes_quality:
  "convertToWebP loaded_world (Some (Fin (1 / 2))) None None =
     (Inl (Error ''Conversion failed: Failed to convert image to WebP''),
      \<lparr>state = \<lparr>originalFile = Some photo_png, originalImage = Some photo_image,
                 convertedBlob = None, quality = Fin (1 / 2), isConverting = False\<rparr>,
       objectURLs = [], nextURL = 0\<rparr>) \<and>
   quality (state loaded_world) = Fin (9 / 10)"
proof -
  have "convertToWebP loaded_world (Some (Fin (1 / 2))) None None =
     (Inl (Error ''Conversion failed: Failed to convert image to WebP''),
      converting_world\<lparr>state := (state converting_world)\<lparr>isConverting := False\<rparr>\<rparr>)"
    by (simp add: convertToWebP_def start_photo resume_null)
  then show ?thesis by (simp add: converting_world_eq loaded_world_eq)
qed

text \<open>
  C3, amended. A call of \<open>convertToWebP\<close> with no image loaded fails and changes
  nothing. A call while the flag is set fails and changes nothing either: the flag
  stays set. A call that passes both checks and then fails, because the canvas throws
  or the encoder answers \<open>null\<close>, leaves the file, the image, the previous blob and the
  object URLs as they were, clears the flag, and has stored the requested quality.
\<close>

theorem convertToWebP_failures:
  "(originalImage (state w) = None \<longrightarrow>
      convertToWebP w qarg canvas_throw answer =
        (Inl (Error ''No image loaded for conversion''), w)) \<and>
   (originalImage (state w) \<noteq> None \<and> isConverting (state w) \<longrightarrow>
      convertToWebP w qarg canvas_throw answer =
        (Inl (Error ''Conversion already in progress''), w)) \<and>
   (originalImage (state w) \<noteq> None \<and> \<not> isConverting (state w) \<longrightarrow>
      convertToWebP w qarg None None =
        (Inl (Error ''Conversion failed: Failed to convert image to WebP''),
         w\<lparr>state := (state w)
              \<lparr>quality := (case qarg of None \<Rightarrow> quality (state w) | Some q \<Rightarrow> q),
               isConverting := False\<rparr>\<rparr>) \<and>
      convertToWebP w qarg (Some m) answer =
        (Inl (Error (''Conversion failed: '' @ m)),
         w\<lparr>state := (state w)
              \<lparr>quality := (case qarg of None \<Rightarrow> quality (state w) | Some q \<Rightarrow> q),
               isConverting := False\<rparr>\<rparr>))"
proof -
  have no_image: "convertToWebP w qarg canvas_throw answer =
        (Inl (Error ''No image loaded for conversion''), w)"
    if "originalImage (state w) = None"
    using that by (simp add: convertToWebP_def start_no_image)
  have busy: "convertToWebP w qarg canvas_throw answer =
        (Inl (Error ''Conversion already in progress''), w)"
    if "originalImage (state w) \<noteq> None" "isConverting (state w)"
    using that by (simp add: convertToWebP_def start_busy)
  have null: "convertToWebP w qarg None None =
        (Inl (Error ''Conversion failed: Failed to convert image to WebP''),
         w\<lparr>state := (state w)
              \<lparr>quality := (case qarg of None \<Rightarrow> quality (state w) | Some q \<Rightarrow> q),
               isConverting := False\<rparr>\<rparr>)"
    if "originalImage (state w) \<noteq> None" "\<not> isConverting (state w)"
  proof -
    from that obtain img where "originalImage (state w) = Some img" by auto
    with that show ?thesis by (simp add: convertToWebP_def start_suspends resume_null)
  qed
  have throws: "convertToWebP w qarg (Some m) answer =
        (Inl (Error (''Conversion failed: '' @ m)),
         w\<lparr>state := (state w)
              \<lparr>quality := (case qarg of None \<Rightarrow> quality (state w) | Some q \<Rightarrow> q),
               isConverting := False\<rparr>\<rparr>)"
    if "originalImage (state w) \<noteq> None" "\<not> isConverting (state w)"
    using that by (simp add: convertToWebP_def start_throws)
  from no_image busy null throws show ?thesis by blast
qed

theorem convertToWebP_failures_witness:
  "convertToWebP initial_world (Some (Fin (1 / 2))) None None =
     (Inl (Error ''No image loaded for conversion''), initial_world) \<and>
   convertToWebP converting_world (Some (Fin (9 / 10))) None None =
     (Inl (Error ''Conversion already in progress''), converting_world) \<and>
   convertToWebP loaded_world (Some (Fin (1 / 2))) None None =
     (Inl (Error ''Conversion failed: Failed to convert image to WebP''),
      loaded_world\<lparr>state := (state loaded_world)\<lparr>quality := Fin (1 / 2), isConverting := False\<rparr>\<rparr>)"
proof -
  have empty: "originalImage (state initial_world) = None"
    by (simp add: initial_world_def initial_state_def)
  have busy: "originalImage (state converting_world) \<noteq> None \<and> isConverting (state converting_world)"
    by (simp add: converting_world_eq)
  have idle: "originalImage (state loaded_world) \<noteq> None \<and> \<not> isConverting (state loaded_world)"
    by (simp add: loaded_world_eq)
  from empty busy idle
    convertToWebP_failures [of initial_world "Some (Fin (1 / 2))" None None "[]"]
    convertToWebP_failures [of converting_world "Some (Fin (9 / 10))" None None "[]"]
    convertToWebP_failures [of loaded_world "Some (Fin (1 / 2))" None None "[]"]
  show ?thesis by simp
qed

text \<open>
  C4. Loading a second file after a conversion succeeds and replaces the file and the
  image, but the blob converted from the first file stays: \<open>isConverted\<close> is still
  true, and \<open>downloadWebP\<close> delivers the blob of the photo under the name of the logo.
\<close>

theorem second_load_keeps_stale_blob:
  "loadImageFile converted_world (Some logo_gif) (ImageLoaded logo_image) =
     (Inr \<lparr>d_file = logo_gif, d_image = logo_image, d_format = ''GIF'', d_size = 20000,
           d_width = 64, d_height = 64,
           d_dataUrl = DataURL ''data:image/gif;base64,R0lGODlhAQABAAAAACw=''\<rparr>,
      \<lparr>state = \<lparr>originalFile = Some logo_gif, originalImage = Some logo_image,
                 convertedBlob = Some webp_blob, quality = Fin (1 / 2), isConverting = False\<rparr>,
       objectURLs = [(0, webp_blob)], nextURL = 1\<rparr>) \<and>
   isConverted (snd (loadImageFile converted_world (Some logo_gif) (ImageLoaded logo_image))) \<and>
   fst (downloadWebP (snd (loadImageFile converted_world (Some logo_gif) (ImageLoaded logo_image)))
          None) =
     Inr \<lparr>dl_name = ''logo.webp'', dl_blob = webp_blob, dl_url = BlobURL 1\<rparr>"
proof -
  have ext: "getFileExtension (fname logo_gif) = ''GIF''"
    by (simp add: getFileExtension_def logo_gif_def toUpperCase_def upper_char_def)
  have name: "generateWebPFilename (fname logo_gif) = ''logo.webp''"
    by (simp add: logo_gif_def generateWebPFilename_def lastIndexOf_def substring_def Let_def)
  have load: "loadImageFile converted_world (Some logo_gif) (ImageLoaded logo_image) =
     (Inr \<lparr>d_file = logo_gif, d_image = logo_image, d_format = ''GIF'', d_size = 20000,
           d_width = 64, d_height = 64,
           d_dataUrl = DataURL ''data:image/gif;base64,R0lGODlhAQABAAAAACw=''\<rparr>,
      \<lparr>state = \<lparr>originalFile = Some logo_gif, originalImage = Some logo_image,
                 convertedBlob = Some webp_blob, quality = Fin (1 / 2), isConverting = False\<rparr>,
       objectURLs = [(0, webp_blob)], nextURL = 1\<rparr>)"
    by (simp add: loadImageFile_def logo_valid loadImage_def converted_world_eq ext Let_def)
      (simp add: logo_gif_def logo_image_def)
  show ?thesis
    by (simp add: load isConverted_def downloadWebP_def createObjectURL_def name Let_def)
qed

text \<open>
  C5. The engine never revokes a preview URL. After two conversions of the photo the
  URL of the first result is still live beside the URL of the second, and after
  \<open>reset\<close> both are still live: \<open>reset\<close> revokes only the \<open>src\<close> of the image, a
  data URL.
\<close>

theorem preview_urls_stay_live:
  "convertToWebP converted_world (Some (Fin (9 / 10))) None (Some small_blob) =
     (Inr \<lparr>r_blob = small_blob, r_previewUrl = BlobURL 1, r_size = 1000000,
           r_originalSize = 5000000, r_reduction = ''-80.0%'', r_quality = Fin 90,
           r_width = 800, r_height = 600\<rparr>,
      \<lparr>state = \<lparr>originalFile = Some photo_png, originalImage = Some photo_image,
                 convertedBlob = Some small_blob, quality = Fin (9 / 10), isConverting = False\<rparr>,
       objectURLs = [(0, webp_blob), (1, small_blob)], nextURL = 2\<rparr>) \<and>
   reset (snd (convertToWebP converted_world (Some (Fin (9 / 10))) None (Some small_blob))) =
     \<lparr>state = initial_state, objectURLs = [(0, webp_blob), (1, small_blob)], nextURL = 2\<rparr> \<and>
   live (reset (snd (convertToWebP converted_world (Some (Fin (9 / 10))) None (Some small_blob))))
     (BlobURL 0) \<and>
   live (reset (snd (convertToWebP converted_world (Some (Fin (9 / 10))) None (Some small_blob))))
     (BlobURL 1)"
proof -
  have convert: "convertToWebP converted_world (Some (Fin (9 / 10))) None (Some small_blob) =
     (Inr \<lparr>r_blob = small_blob, r_previewUrl = BlobURL 1, r_size = 1000000,
           r_originalSize = 5000000, r_reduction = ''-80.0%'', r_quality = Fin 90,
           r_width = 800, r_height = 600\<rparr>,
      \<lparr>state = \<lparr>originalFile = Some photo_png, originalImage = Some photo_image,
                 convertedBlob = Some small_blob, quality = Fin (9 / 10), isConverting = False\<rparr>,
       objectURLs = [(0, webp_blob), (1, small_blob)], nextURL = 2\<rparr>)"
    by (simp add: convertToWebP_def convertToWebP_start_def convertToWebP_resume_def
        converted_world_eq createObjectURL_def Let_def photo_png_def photo_image_def
        small_blob_def reduction_photo_small)
  have reset:
    "reset (snd (convertToWebP converted_world (Some (Fin (9 / 10))) None (Some small_blob))) =
       \<lparr>state = initial_state, objectURLs = [(0, webp_blob), (1, small_blob)], nextURL = 2\<rparr>"
    by (simp add: convert reset_def revokeObjectURL_def photo_image_def initial_state_def Let_def)
  have live:
    "live \<lparr>state = initial_state, objectURLs = [(0, webp_blob), (1, small_blob)], nextURL = 2\<rparr>
       (BlobURL 0)"
    "live \<lparr>state = initial_state, objectURLs = [(0, webp_blob), (1, small_blob)], nextURL = 2\<rparr>
       (BlobURL 1)"
    by (simp_all add: live_def)
  from convert reset live show ?thesis by (simp only: simp_thms)
qed

text \<open>
  C6, as the claim states it, fails: \<open>reset\<close> while a conversion is in flight is not
  refused; it clears the state, the flag included.
\<close>

theorem reset_while_converting:
  "isConverting (state converting_world) \<and>
   reset converting_world = initial_world \<and>
   reset converting_world \<noteq> converting_world"
  by (simp add: converting_world_eq reset_def revokeObjectURL_def photo_image_def
      initial_world_def initial_state_def Let_def)

text \<open>
  C6, amended. \<open>reset\<close> has no busy check and cannot fail: in every state, one with a
  conversion in flight included, it sets every field of the state to its initial value
  (no file, no image, no blob, quality 0.9, flag clear), after revoking the \<open>src\<close> of
  the image if there is one.
\<close>

theorem reset_always_clears:
  "state (reset w) = initial_state \<and>
   \<not> isConverting (state (reset w)) \<and>
   quality (state (reset w)) = Fin (9 / 10) \<and>
   \<not> hasImage (reset w) \<and> \<not> isConverted (reset w) \<and>
   objectURLs (reset w) =
     (case originalImage (state w) of
        Some img \<Rightarrow> objectURLs (revokeObjectURL w (src img))
      | None \<Rightarrow> objectURLs w)"
  by (simp add: reset_def initial_state_def hasImage_def isConverted_def Let_def
      split: option.splits)

section \<open>Further facts about the engine\<close>

text \<open>\<open>loadImageFile\<close> never touches the converted blob.\<close>

lemma load_keeps_isConverted: "isConverted (snd (loadImageFile w fo out)) = isConverted w"
  by (simp add: isConverted_def load_keeps_blob)

text \<open>\<open>convertToWebP\<close> never takes an object URL out of the table.\<close>

lemma start_keeps_urls: "objectURLs (snd (convertToWebP_start w qarg canvas_throw)) = objectURLs w"
  by (simp add: convertToWebP_start_def Let_def split: option.splits)

lemma resume_keeps_live: "live w u \<Longrightarrow> live (snd (convertToWebP_resume w p answer)) u"
  by (cases u)
    (auto simp: live_def convertToWebP_resume_def createObjectURL_def Let_def
      split: option.splits sum.splits)

lemma convert_keeps_live: "live w u \<Longrightarrow> live (snd (convertToWebP w qarg canvas_throw answer)) u"
proof -
  assume l: "live w u"
  obtain r w' where s: "convertToWebP_start w qarg canvas_throw = (r, w')" by fastforce
  then have "objectURLs w' = objectURLs w" using start_keeps_urls [of w qarg canvas_throw] by simp
  with l have l': "live w' u" by (simp add: live_def split: url.splits)
  show ?thesis
  proof (cases r)
    case (Inl e)
    with s l' show ?thesis by (simp add: convertToWebP_def)
  next
    case (Inr p)
    with s l' show ?thesis by (simp add: convertToWebP_def resume_keeps_live)
  qed
qed

text \<open>A conversion that returns a result has issued a new live URL for it.\<close>

lemma resume_issues_url:
  "convertToWebP_resume w p answer = (Inr r, w') \<Longrightarrow>
   r_previewUrl r = BlobURL (nextURL w) \<and> live w' (r_previewUrl r)"
  by (auto simp: convertToWebP_resume_def createObjectURL_def live_def Let_def
      split: option.splits sum.splits)

text \<open>\<open>reset\<close> twice is \<open>reset\<close> once.\<close>

lemma reset_idempotent: "reset (reset w) = reset w"
  by (simp add: reset_def Let_def)


end
